theory Spec2Isabelle
  imports
    Main
    "HOL-Library.Multiset"
    "HOL-Library.Char_ord"
    "HOL-Library.List_Lexorder"
    "HOL-Library.AList"
begin

section \<open>Strings\<close>

text \<open>
  A Go string is a sequence of bytes, here a \<^typ>\<open>string\<close>. Go compares strings
  bytewise and lexicographically, a proper prefix being smaller: this is the order that
  \<open>Char_ord\<close> and \<open>List_Lexorder\<close> give to \<^typ>\<open>string\<close>.

  \<open>Split s sep\<close> is \<open>strings.Split(s, sep)\<close> of the Go library for a separator of one
  byte, the only kind the package uses (\<open>","\<close>, \<open>":"\<close>, \<open>" "\<close>, \<open>"@"\<close>, \<open>"\n"\<close>): all the
  fields between the separators, empty fields included, so that the empty string splits
  into one empty field. The third case of the inner \<open>case\<close> is never reached
  (lemma \<open>Split_not_Nil\<close>).
\<close>

fun Split :: "string \<Rightarrow> char \<Rightarrow> string list" where
  "Split [] sep = [[]]"
| "Split (c # s) sep =
     (if c = sep then [] # Split s sep
      else (case Split s sep of
              w # ws \<Rightarrow> (c # w) # ws
            | [] \<Rightarrow> [[c]]))"

abbreviation newline :: char where
  "newline \<equiv> CHR 0x0A"

section \<open>Constants of the package\<close>

abbreviation RedisLinkStateConnected :: string where
  "RedisLinkStateConnected \<equiv> ''connected''"

abbreviation RedisLinkStateDisconnected :: string where
  "RedisLinkStateDisconnected \<equiv> ''disconnected''"

abbreviation NodeStatusPFail :: string where
  "NodeStatusPFail \<equiv> ''fail?''"

abbreviation NodeStatusFail :: string where
  "NodeStatusFail \<equiv> ''fail''"

abbreviation NodeStatusHandshake :: string where
  "NodeStatusHandshake \<equiv> ''handshake''"

abbreviation NodeStatusNoAddr :: string where
  "NodeStatusNoAddr \<equiv> ''noaddr''"

abbreviation NodeStatusNoFlags :: string where
  "NodeStatusNoFlags \<equiv> ''noflags''"

abbreviation DefaultRedisPort :: string where
  "DefaultRedisPort \<equiv> ''6379''"

abbreviation RedisMasterRole :: string where
  "RedisMasterRole \<equiv> ''master''"

abbreviation RedisSlaveRole :: string where
  "RedisSlaveRole \<equiv> ''slave''"

section \<open>The node\<close>

text \<open>
  \<open>Slot\<close> is declared in another file of the package; it is a number.
  The two maps of a node are association lists updated with \<open>AList.update\<close>; the start
  time is \<open>None\<close> for the zero time, and the pod is \<open>None\<close> for \<open>nil\<close> and the pod's name
  otherwise. A \<open>*Node\<close> is modelled by the node it points to: no operation below writes
  to a node through a pointer held by a collection.
\<close>

type_synonym Slot = nat

record Node =
  ID :: string
  IP :: string
  Port :: string
  Role :: string
  LinkState :: string
  MasterReferent :: string
  FailStatus :: "string list"
  PingSent :: int
  PongRecv :: int
  ConfigEpoch :: int
  Slots :: "Slot list"
  MigratingSlots :: "(Slot \<times> string) list"
  ImportingSlots :: "(Slot \<times> string) list"
  ServerStartTime :: "int option"
  Pod :: "string option"

type_synonym Nodes = "Node list"

definition NewDefaultNode :: Node where
  "NewDefaultNode =
     \<lparr>ID = [], IP = [], Port = DefaultRedisPort, Role = [], LinkState = [],
      MasterReferent = [], FailStatus = [], PingSent = 0, PongRecv = 0, ConfigEpoch = 0,
      Slots = [], MigratingSlots = [], ImportingSlots = [], ServerStartTime = None,
      Pod = None\<rparr>"

definition NewNode :: "string \<Rightarrow> string \<Rightarrow> string option \<Rightarrow> Node" where
  "NewNode id' ip pod = NewDefaultNode\<lparr>ID := id', IP := ip, Pod := pod\<rparr>"

subsection \<open>SetRole, GetRole\<close>

fun SetRole_loop :: "string list \<Rightarrow> Node \<Rightarrow> Node" where
  "SetRole_loop [] n = n"
| "SetRole_loop (val # vals) n =
     SetRole_loop vals
       (if val = RedisMasterRole then n\<lparr>Role := RedisMasterRole\<rparr>
        else if val = RedisSlaveRole then n\<lparr>Role := RedisSlaveRole\<rparr>
        else n)"

definition SetRole :: "Node \<Rightarrow> string \<Rightarrow> Node" where
  "SetRole n flags = SetRole_loop (Split flags CHR '','') (n\<lparr>Role := []\<rparr>)"

definition GetRole :: "Node \<Rightarrow> string" where
  "GetRole n =
     (if Role n = RedisMasterRole then RedisMasterRole
      else if Role n = RedisSlaveRole then RedisSlaveRole
      else if MasterReferent n \<noteq> [] then RedisSlaveRole
      else if length (Slots n) > 0 then RedisMasterRole
      else ''none'')"

subsection \<open>SetLinkStatus, SetFailureStatus, SetReferentMaster\<close>

definition SetLinkStatus :: "Node \<Rightarrow> string \<Rightarrow> Node" where
  "SetLinkStatus n status =
     (let n = n\<lparr>LinkState := []\<rparr>
      in if status = RedisLinkStateConnected then n\<lparr>LinkState := RedisLinkStateConnected\<rparr>
         else if status = RedisLinkStateDisconnected
           then n\<lparr>LinkState := RedisLinkStateDisconnected\<rparr>
         else n)"

fun SetFailureStatus_loop :: "string list \<Rightarrow> Node \<Rightarrow> Node" where
  "SetFailureStatus_loop [] n = n"
| "SetFailureStatus_loop (val # vals) n =
     SetFailureStatus_loop vals
       (if val = NodeStatusFail then n\<lparr>FailStatus := FailStatus n @ [NodeStatusFail]\<rparr>
        else if val = NodeStatusPFail then n\<lparr>FailStatus := FailStatus n @ [NodeStatusPFail]\<rparr>
        else if val = NodeStatusHandshake
          then n\<lparr>FailStatus := FailStatus n @ [NodeStatusHandshake]\<rparr>
        else if val = NodeStatusNoAddr then n\<lparr>FailStatus := FailStatus n @ [NodeStatusNoAddr]\<rparr>
        else if val = NodeStatusNoFlags
          then n\<lparr>FailStatus := FailStatus n @ [NodeStatusNoFlags]\<rparr>
        else n)"

definition SetFailureStatus :: "Node \<Rightarrow> string \<Rightarrow> Node" where
  "SetFailureStatus n flags =
     SetFailureStatus_loop (Split flags CHR '','') (n\<lparr>FailStatus := []\<rparr>)"

definition SetReferentMaster :: "Node \<Rightarrow> string \<Rightarrow> Node" where
  "SetReferentMaster n ref =
     (let n = n\<lparr>MasterReferent := []\<rparr>
      in if ref = ''-'' then n else n\<lparr>MasterReferent := ref\<rparr>)"

fun HasStatus_loop :: "string list \<Rightarrow> string \<Rightarrow> bool" where
  "HasStatus_loop [] flag = False"
| "HasStatus_loop (status # rest) flag = (if status = flag then True else HasStatus_loop rest flag)"

definition HasStatus :: "Node \<Rightarrow> string \<Rightarrow> bool" where
  "HasStatus n flag = HasStatus_loop (FailStatus n) flag"

definition TotalSlots :: "Node \<Rightarrow> nat" where
  "TotalSlots n = length (Slots n)"

definition IsMasterWithNoSlot :: "Node \<Rightarrow> bool" where
  "IsMasterWithNoSlot n = (GetRole n = RedisMasterRole \<and> TotalSlots n = 0)"

definition IsMasterWithSlot :: "Node \<Rightarrow> bool" where
  "IsMasterWithSlot n = (GetRole n = RedisMasterRole \<and> TotalSlots n > 0)"

definition IsSlave :: "Node \<Rightarrow> bool" where
  "IsSlave n = (GetRole n = RedisSlaveRole)"

section \<open>The node collection\<close>

text \<open>
  The package has one error value for a lookup that finds nothing. A Go function that
  returns a node and an error is a sum; \<open>GetNodesByFunc\<close>, which returns its (empty)
  slice together with the error, is a pair.
\<close>

datatype error = nodeNotFoundedError

fun GetNodesByFunc_loop :: "Nodes \<Rightarrow> (Node \<Rightarrow> bool) \<Rightarrow> Nodes \<Rightarrow> Nodes" where
  "GetNodesByFunc_loop [] f nodes = nodes"
| "GetNodesByFunc_loop (node # rest) f nodes =
     GetNodesByFunc_loop rest f (if f node then nodes @ [node] else nodes)"

definition GetNodesByFunc :: "Nodes \<Rightarrow> (Node \<Rightarrow> bool) \<Rightarrow> Nodes \<times> error option" where
  "GetNodesByFunc n f =
     (let nodes = GetNodesByFunc_loop n f []
      in if length nodes = 0 then (nodes, Some nodeNotFoundedError) else (nodes, None))"

fun GetNodeByID :: "Nodes \<Rightarrow> string \<Rightarrow> error + Node" where
  "GetNodeByID [] id' = Inl nodeNotFoundedError"
| "GetNodeByID (node # rest) id' = (if ID node = id' then Inr node else GetNodeByID rest id')"

fun GetNodeByMasterID :: "Nodes \<Rightarrow> string \<Rightarrow> error + Node" where
  "GetNodeByMasterID [] id' = Inl nodeNotFoundedError"
| "GetNodeByMasterID (node # rest) id' =
     (if MasterReferent node = id' then Inr node else GetNodeByMasterID rest id')"

fun CountByFunc :: "Nodes \<Rightarrow> (Node \<Rightarrow> bool) \<Rightarrow> nat" where
  "CountByFunc [] fn = 0"
| "CountByFunc (v # rest) fn = (if fn v then 1 else 0) + CountByFunc rest fn"

fun FilterByFunc_loop :: "Nodes \<Rightarrow> (Node \<Rightarrow> bool) \<Rightarrow> Nodes \<Rightarrow> Nodes" where
  "FilterByFunc_loop [] fn newSlice = newSlice"
| "FilterByFunc_loop (node # rest) fn newSlice =
     FilterByFunc_loop rest fn (if fn node then newSlice @ [node] else newSlice)"

definition FilterByFunc :: "Nodes \<Rightarrow> (Node \<Rightarrow> bool) \<Rightarrow> Nodes" where
  "FilterByFunc n fn = FilterByFunc_loop n fn []"

subsection \<open>Sorting\<close>


definition LessByID :: "Node \<Rightarrow> Node \<Rightarrow> bool" where
  "LessByID n1 n2 = (ID n1 < ID n2)"

definition MoreByID :: "Node \<Rightarrow> Node \<Rightarrow> bool" where
  "MoreByID n1 n2 = (ID n1 > ID n2)"

text \<open>
  Both sorting methods hand the slice to \<open>sort.Sort\<close> of the Go library, which reorders
  it in place through \<open>Len\<close>, \<open>Less\<close> and \<open>Swap\<close>. The library routine is a parameter
  \<open>srt\<close> of the model: \<open>srt lessf xs\<close> is the content of the slice after
  \<open>sort.Sort\<close> has run on the content \<open>xs\<close> with the comparison \<open>lessf\<close>.

  What the library documents of it is \<open>sort_Sort_contract\<close>: the slice is only permuted
  (its elements move by \<open>Swap\<close> alone), and it ends in ascending order whenever \<open>Less\<close>
  is a transitive ordering, that is, no element after another one sorts before it. The
  library does not promise that equal elements keep their order.
\<close>

type_synonym sorter = "(Node \<Rightarrow> Node \<Rightarrow> bool) \<Rightarrow> Nodes \<Rightarrow> Nodes"


definition ordered_by :: "('a \<Rightarrow> 'a \<Rightarrow> bool) \<Rightarrow> 'a list \<Rightarrow> bool" where
  "ordered_by lessf xs = sorted_wrt (\<lambda>a b. \<not> lessf b a) xs"



definition SortByFunc :: "sorter \<Rightarrow> Nodes \<Rightarrow> (Node \<Rightarrow> Node \<Rightarrow> bool) \<Rightarrow> Nodes \<times> Nodes" where
  "SortByFunc srt n lessf =
     (let result = n;
          n = srt lessf n
      in (result, n))"



section \<open>The decoders\<close>

subsection \<open>DecodeNodeInfos\<close>

text \<open>
  Three functions that \<open>DecodeNodeInfos\<close> calls are defined outside this file and
  are parameters of the model, each returning \<open>None\<close> where the Go function returns an
  error: \<open>net.SplitHostPort\<close> and \<open>strconv.ParseInt\<close> (base 10, 64 bits) of the Go
  library, and the package's own \<open>DecodeSlotRange\<close>, which returns the slots of a token,
  an importing marker (slot and source node) and a migrating marker (slot and
  destination node), the markers being \<open>None\<close> for \<open>nil\<close>.
\<close>

record externals =
  SplitHostPort :: "string \<Rightarrow> (string \<times> string) option"
  ParseInt :: "string \<Rightarrow> int option"
  DecodeSlotRange ::
    "string \<Rightarrow> (Slot list \<times> (Slot \<times> string) option \<times> (Slot \<times> string) option) option"

fun decode_slots :: "externals \<Rightarrow> string list \<Rightarrow> Node \<Rightarrow> Node" where
  "decode_slots ext [] node = node"
| "decode_slots ext (slot # rest) node =
     decode_slots ext rest
       (case DecodeSlotRange ext slot of
          None \<Rightarrow> node
        | Some (s, importing, migrating) \<Rightarrow>
            (let node = node\<lparr>Slots := Slots node @ s\<rparr>;
                 node = (case importing of
                           None \<Rightarrow> node
                         | Some (SlotID, FromNodeID) \<Rightarrow>
                             node\<lparr>ImportingSlots :=
                               AList.update SlotID FromNodeID (ImportingSlots node)\<rparr>);
                 node = (case migrating of
                           None \<Rightarrow> node
                         | Some (SlotID, ToNodeID) \<Rightarrow>
                             node\<lparr>MigratingSlots :=
                               AList.update SlotID ToNodeID (MigratingSlots node)\<rparr>)
             in node))"

text \<open>
  The decoder writes to the log: a message at verbosity 7 with each line that it
  ignores, and an error with the identifier and the address field of each node whose
  address it cannot split. The log is a list of such entries, threaded through the
  decoder, which returns it beside its result. (The text of the library's error, the
  last argument of the error message, is left out.)
\<close>

datatype klog = Infof_V nat string | Errorf string string

text \<open>
  The body of the loop for a line of at least eight fields. \<open>values ! 1\<close> and the like
  are in range there, and \<open>ipPort ! 0\<close> always is (lemma \<open>Split_not_Nil\<close>).
\<close>

definition decode_node :: "externals \<Rightarrow> string list \<Rightarrow> klog list \<Rightarrow> Node \<times> klog list" where
  "decode_node ext values log =
     (let node = NewDefaultNode;
          node = node\<lparr>ID := values ! 0\<rparr>;
          ipPort = Split (values ! 1) CHR ''@'';
          (node, log) = (case SplitHostPort ext (ipPort ! 0) of
                           Some (ip, port) \<Rightarrow> (node\<lparr>IP := ip, Port := port\<rparr>, log)
                         | None \<Rightarrow> (node, log @ [Errorf (ID node) (values ! 1)]));
          node = SetRole node (values ! 2);
          node = SetFailureStatus node (values ! 2);
          node = SetReferentMaster node (values ! 3);
          node = (case ParseInt ext (values ! 4) of
                    Some i \<Rightarrow> node\<lparr>PingSent := i\<rparr> | None \<Rightarrow> node);
          node = (case ParseInt ext (values ! 5) of
                    Some i \<Rightarrow> node\<lparr>PongRecv := i\<rparr> | None \<Rightarrow> node);
          node = (case ParseInt ext (values ! 6) of
                    Some i \<Rightarrow> node\<lparr>ConfigEpoch := i\<rparr> | None \<Rightarrow> node);
          node = SetLinkStatus node (values ! 7)
      in (decode_slots ext (drop 8 values) node, log))"

fun DecodeNodeInfos_loop ::
  "externals \<Rightarrow> string list \<Rightarrow> Nodes \<Rightarrow> klog list \<Rightarrow> Nodes \<times> klog list" where
  "DecodeNodeInfos_loop ext [] nodes log = (nodes, log)"
| "DecodeNodeInfos_loop ext (line # lines) nodes log =
     (let values = Split line CHR '' ''
      in if length values < 8
         then DecodeNodeInfos_loop ext lines nodes (log @ [Infof_V 7 line])
         else (let (node, log) = decode_node ext values log
               in DecodeNodeInfos_loop ext lines (nodes @ [node]) log))"

definition DecodeNodeInfos :: "externals \<Rightarrow> string \<Rightarrow> Nodes \<times> klog list" where
  "DecodeNodeInfos ext input = DecodeNodeInfos_loop ext (Split input newline) [] []"

subsection \<open>DecodeClusterInfos\<close>

fun DecodeClusterInfos_loop ::
  "string list \<Rightarrow> (string \<rightharpoonup> string) \<Rightarrow> (string \<rightharpoonup> string)" where
  "DecodeClusterInfos_loop [] clusterInfo = clusterInfo"
| "DecodeClusterInfos_loop (line # lines) clusterInfo =
     (let values = Split line CHR '':''
      in if length values < 2 then DecodeClusterInfos_loop lines clusterInfo
         else DecodeClusterInfos_loop lines (clusterInfo(values ! 0 \<mapsto> values ! 1)))"

definition DecodeClusterInfos :: "string \<Rightarrow> (string \<rightharpoonup> string)" where
  "DecodeClusterInfos input = DecodeClusterInfos_loop (Split input newline) Map.empty"

section \<open>Setting the configuration\<close>

definition parseConfigMap :: "string \<rightharpoonup> int" where
  "parseConfigMap = map_of
     [(''maxmemory'', 0),
      (''proto-max-bulk-len'', 0),
      (''client-query-buffer-limit'', 0),
      (''repl-backlog-size'', 0),
      (''auto-aof-rewrite-min-size'', 0),
      (''active-defrag-ignore-bytes'', 0),
      (''hash-max-ziplist-entries'', 0),
      (''hash-max-ziplist-value'', 0),
      (''stream-node-max-bytes'', 0),
      (''set-max-intset-entries'', 0),
      (''zset-max-ziplist-entries'', 0),
      (''zset-max-ziplist-value'', 0),
      (''hll-sparse-max-bytes'', 0)]"

text \<open>
  The function that \<open>SetConfigIfNeed\<close> runs on one master. \<open>newConfig\<close> is the mapping
  as the list of its entries in the order in which \<open>range\<close> yields them. The normalizer
  \<open>utils.ParseRedisMemConf\<close> is defined outside this file and is the parameter
  \<open>ParseRedisMemConf\<close>; \<open>ConfigSet key value\<close> is the error, if any, with which the
  master answers that command. The state is the list of the commands sent to the
  master so far, and the result pairs the returned error with that list.

  In the source the normalizer's result is bound by \<open>:=\<close> to a new variable \<open>value\<close>
  whose scope is the block of the \<open>if\<close>: it is \<open>value'\<close> here, and the command
  sent after the block takes the \<open>value\<close> of the loop.
\<close>

fun SetConfigIfNeed_master ::
  "(string \<Rightarrow> 'e + string) \<Rightarrow> (string \<Rightarrow> string \<Rightarrow> 'e option) \<Rightarrow> (string \<times> string) list \<Rightarrow>
     (string \<times> string) list \<Rightarrow> 'e option \<times> (string \<times> string) list" where
  "SetConfigIfNeed_master ParseRedisMemConf ConfigSet [] sent = (None, sent)"
| "SetConfigIfNeed_master ParseRedisMemConf ConfigSet ((key, value) # rest) sent =
     (if parseConfigMap key \<noteq> None \<and>
         (case ParseRedisMemConf value of Inl err \<Rightarrow> True | Inr value' \<Rightarrow> False)
      then SetConfigIfNeed_master ParseRedisMemConf ConfigSet rest sent
      else (case ConfigSet key value of
              Some err \<Rightarrow> (Some err, sent @ [(key, value)])
            | None \<Rightarrow>
                SetConfigIfNeed_master ParseRedisMemConf ConfigSet rest (sent @ [(key, value)])))"

text \<open>
  \<open>ForEachMaster\<close> of the client library runs the function on every master and returns
  an error if one of the runs returned one. The masters are the list of their
  \<open>ConfigSet\<close> behaviours; the result is the first error in that list, if any, and for
  each master the commands sent to it.
\<close>

definition SetConfigIfNeed ::
  "(string \<Rightarrow> 'e + string) \<Rightarrow> (string \<Rightarrow> string \<Rightarrow> 'e option) list \<Rightarrow> (string \<times> string) list \<Rightarrow>
     'e option \<times> (string \<times> string) list list" where
  "SetConfigIfNeed ParseRedisMemConf masters newConfig =
     (let runs = map (\<lambda>master. SetConfigIfNeed_master ParseRedisMemConf master newConfig [])
                   masters
      in (case List.find (\<lambda>r. fst r \<noteq> None) runs of
            Some r \<Rightarrow> fst r
          | None \<Rightarrow> None,
          map snd runs))"

section \<open>Notions used to state the properties\<close>

text \<open>
  The part of a line before its first colon, and the whole remainder after that colon.
\<close>

definition before_first_colon :: "string \<Rightarrow> string" where
  "before_first_colon line = takeWhile (\<lambda>c. c \<noteq> CHR '':'') line"

definition after_first_colon :: "string \<Rightarrow> string" where
  "after_first_colon line = tl (dropWhile (\<lambda>c. c \<noteq> CHR '':'') line)"

text \<open>
  The flags that \<open>SetFailureStatus\<close> recognizes.
\<close>

definition failure_flags :: "string list" where
  "failure_flags =
     [NodeStatusFail, NodeStatusPFail, NodeStatusHandshake, NodeStatusNoAddr, NodeStatusNoFlags]"

text \<open>
  Functions to run \<open>DecodeNodeInfos\<close> on: an address is split at its colon when it has
  exactly one, a number is parsed when it is a non-empty sequence of digits, and no slot
  token is decoded. The theorems hold for every choice of the three functions; these
  ones serve to evaluate the decoder on \<open>test_input\<close>, two lines of a node list, the
  first of which has an address without a port.
\<close>

definition test_SplitHostPort :: "string \<Rightarrow> (string \<times> string) option" where
  "test_SplitHostPort hostport =
     (case Split hostport CHR '':'' of
        [host, port] \<Rightarrow> Some (host, port)
      | _ \<Rightarrow> None)"

definition test_ParseInt :: "string \<Rightarrow> int option" where
  "test_ParseInt s =
     (if s \<noteq> [] \<and> list_all (\<lambda>c. CHR ''0'' \<le> c \<and> c \<le> CHR ''9'') s
      then Some (foldl (\<lambda>n c. 10 * n + (of_char c - 48)) 0 s)
      else None)"

definition test_externals :: externals where
  "test_externals =
     \<lparr>SplitHostPort = test_SplitHostPort, ParseInt = test_ParseInt,
      DecodeSlotRange = (\<lambda>slot. None)\<rparr>"

definition test_input :: string where
  "test_input =
     ''a 1.2.3.4@16379 master - 0 0 1 connected'' @ [newline] @
     ''b 1.2.3.5:6380@16380 slave a 0 0 2 connected'' @ [newline]"





section \<open>Splitting\<close>

lemma Split_not_Nil: "Split s sep \<noteq> []"
  by (induction s) (auto split: list.splits)

lemma Split_unfold:
  "Split s sep =
     takeWhile (\<lambda>c. c \<noteq> sep) s #
       (if sep \<in> set s then Split (tl (dropWhile (\<lambda>c. c \<noteq> sep) s)) sep else [])"
  by (induction s) (auto split: list.splits simp: Split_not_Nil)

lemma length_Split_ge2: "length (Split s sep) < 2 \<longleftrightarrow> sep \<notin> set s"
  by (subst Split_unfold) (auto simp: Split_not_Nil less_Suc_eq)

lemma Split_nth0: "Split s sep ! 0 = takeWhile (\<lambda>c. c \<noteq> sep) s"
  by (subst Split_unfold) simp

lemma Split_nth1:
  "sep \<in> set s \<Longrightarrow>
   Split s sep ! 1 = takeWhile (\<lambda>c. c \<noteq> sep) (tl (dropWhile (\<lambda>c. c \<noteq> sep) s))"
  by (subst Split_unfold) (simp add: Split_nth0)

section \<open>Sorting a collection\<close>














text \<open>
  C1 fails for \<open>SortByFunc\<close>. The slice it returns is the copy it made before sorting, so
  the result is the collection in its input order whatever the comparison: sorting
  \<open>b, a\<close> by \<open>LessByID\<close> returns \<open>b, a\<close>, which is not in ascending order of the
  identifiers. It is the receiver that ends up sorted.
\<close>

theorem SortByFunc_returns_unsorted_copy:
  "fst (SortByFunc srt n lessf) = n \<and>
   fst (SortByFunc srt [NewNode ''b'' ''1.2.3.2'' None, NewNode ''a'' ''1.2.3.1'' None] LessByID) =
     [NewNode ''b'' ''1.2.3.2'' None, NewNode ''a'' ''1.2.3.1'' None] \<and>
   \<not> ordered_by LessByID
       (fst (SortByFunc srt [NewNode ''b'' ''1.2.3.2'' None, NewNode ''a'' ''1.2.3.1'' None]
          LessByID))"
  by (simp add: SortByFunc_def ordered_by_def LessByID_def NewNode_def NewDefaultNode_def)

section \<open>The status decoder\<close>

lemma DecodeClusterInfos_loop_fold:
  "DecodeClusterInfos_loop lines m =
     fold (\<lambda>line m. m(before_first_colon line \<mapsto> before_first_colon (after_first_colon line)))
       (filter (\<lambda>line. CHR '':'' \<in> set line) lines) m"
proof (induction lines arbitrary: m)
  case Nil
  show ?case by simp
next
  case (Cons line lines)
  show ?case
  proof (cases "CHR '':'' \<in> set line")
    case True
    then have "\<not> length (Split line CHR '':'') < 2"
      by (simp add: length_Split_ge2)
    with True show ?thesis
      by (simp add: Cons.IH Split_nth0 Split_nth1 before_first_colon_def
            after_first_colon_def del: One_nat_def)
  next
    case False
    then have "length (Split line CHR '':'') < 2"
      by (simp add: length_Split_ge2)
    with False show ?thesis
      by (simp add: Cons.IH)
  qed
qed

lemma fold_upd_map_of:
  "fold (\<lambda>x m. m(f x \<mapsto> g x)) xs m = m ++ map_of (rev (map (\<lambda>x. (f x, g x)) xs))"
  by (induction xs arbitrary: m) (simp_all add: map_add_upd_left)

text \<open>
  C3, as the code has it. \<open>DecodeClusterInfos\<close> skips the lines without a colon and
  gives every other line an entry whose key is the text before the first colon and
  whose value is the text between the first colon and the second one, or the end of
  the line when there is no second colon: whatever follows a second colon is dropped.
  Where two lines have the same key, the later one stands. The decoder returns a
  mapping for every input.
\<close>

theorem DecodeClusterInfos_entries:
  "DecodeClusterInfos input =
     map_of (rev (map (\<lambda>line. (before_first_colon line,
                               before_first_colon (after_first_colon line)))
                    (filter (\<lambda>line. CHR '':'' \<in> set line) (Split input newline))))"
  by (simp add: DecodeClusterInfos_def DecodeClusterInfos_loop_fold fold_upd_map_of)

text \<open>
  C3 as stated, with the whole remainder of the line as the value, fails on the line
  \<open>a:b:c\<close>: the value decoded for the key \<open>a\<close> is \<open>b\<close>, not \<open>b:c\<close>.
\<close>

theorem DecodeClusterInfos_value_counterexample:
  "DecodeClusterInfos ''a:b:c'' ''a'' = Some ''b'' \<and>
   DecodeClusterInfos ''a:b:c'' ''a'' \<noteq> Some (after_first_colon ''a:b:c'')"
  by (simp add: DecodeClusterInfos_def after_first_colon_def)

section \<open>The setters of a node\<close>

lemma SetFailureStatus_loop_filter:
  "SetFailureStatus_loop vals n =
     n\<lparr>FailStatus := FailStatus n @ filter (\<lambda>val. val \<in> set failure_flags) vals\<rparr>"
  by (induction vals arbitrary: n) (simp_all add: failure_flags_def)

text \<open>
  C4, as the code has it. After \<open>SetFailureStatus\<close> the failure status of the node is
  the list of the recognized flags among the comma-separated fields of the flags
  string, in their order and as often as they occur there, whatever the status was
  before. So it holds flags of the fixed enumeration only, and a field that is not
  recognized is passed over.
\<close>

theorem SetFailureStatus_recognized:
  "FailStatus (SetFailureStatus n flags) =
     filter (\<lambda>val. val \<in> set failure_flags) (Split flags CHR '','') \<and>
   set (FailStatus (SetFailureStatus n flags)) \<subseteq> set failure_flags"
  by (auto simp add: SetFailureStatus_def SetFailureStatus_loop_filter)

text \<open>
  C4 as stated, with no duplicate entries, fails on the flags string \<open>fail,fail\<close>: the
  failure status then holds \<open>fail\<close> twice.
\<close>

theorem SetFailureStatus_duplicates_counterexample:
  "FailStatus (SetFailureStatus NewDefaultNode ''fail,fail'') = [''fail'', ''fail''] \<and>
   \<not> distinct (FailStatus (SetFailureStatus NewDefaultNode ''fail,fail''))"
  by (simp add: SetFailureStatus_def NewDefaultNode_def)

lemma SetRole_loop_unrecognized:
  "\<forall>val \<in> set vals. val \<noteq> RedisMasterRole \<and> val \<noteq> RedisSlaveRole \<Longrightarrow> SetRole_loop vals n = n"
  by (induction vals arbitrary: n) simp_all

lemma SetRole_loop_last:
  "SetRole_loop vals n =
     n\<lparr>Role :=
         (if filter (\<lambda>val. val = RedisMasterRole \<or> val = RedisSlaveRole) vals = [] then Role n
          else last (filter (\<lambda>val. val = RedisMasterRole \<or> val = RedisSlaveRole) vals))\<rparr>"
  by (induction vals arbitrary: n) simp_all

text \<open>
  C8. \<open>SetRole\<close> and \<open>SetLinkStatus\<close> reset the field and then apply what they
  recognize, and change nothing else of the node. After \<open>SetRole\<close> the role is the last
  of the comma-separated fields of the flags string that is \<open>master\<close> or \<open>slave\<close>, and
  empty when there is none; after \<open>SetLinkStatus\<close> the link state is the status when
  that is \<open>connected\<close> or \<open>disconnected\<close>, and empty otherwise. So the result does not
  depend on the role, or link state, the node had, and a string with no recognized
  value leaves the field empty. In particular \<open>SetRole\<close> with \<open>myself,slave\<close> sets the
  role \<open>slave\<close>, and \<open>SetRole\<close> with \<open>king\<close> after it leaves the role empty.
\<close>

theorem setters_reset_first:
  "SetRole n flags =
     n\<lparr>Role :=
         (if filter (\<lambda>val. val = RedisMasterRole \<or> val = RedisSlaveRole)
               (Split flags CHR '','') = [] then []
          else last (filter (\<lambda>val. val = RedisMasterRole \<or> val = RedisSlaveRole)
                 (Split flags CHR '','')))\<rparr> \<and>
   SetLinkStatus n status =
     n\<lparr>LinkState :=
         (if status = RedisLinkStateConnected \<or> status = RedisLinkStateDisconnected then status
          else [])\<rparr> \<and>
   SetRole (n\<lparr>Role := r\<rparr>) flags = SetRole n flags \<and>
   SetLinkStatus (n\<lparr>LinkState := l\<rparr>) status = SetLinkStatus n status \<and>
   ((\<forall>val \<in> set (Split flags CHR '',''). val \<noteq> RedisMasterRole \<and> val \<noteq> RedisSlaveRole) \<longrightarrow>
      Role (SetRole n flags) = []) \<and>
   (status \<noteq> RedisLinkStateConnected \<and> status \<noteq> RedisLinkStateDisconnected \<longrightarrow>
      LinkState (SetLinkStatus n status) = []) \<and>
   Role (SetRole n ''myself,slave'') = RedisSlaveRole \<and>
   Role (SetRole (SetRole n ''myself,slave'') ''king'') = []"
proof -
  have role: "SetRole n flags =
     n\<lparr>Role :=
         (if filter (\<lambda>val. val = RedisMasterRole \<or> val = RedisSlaveRole)
               (Split flags CHR '','') = [] then []
          else last (filter (\<lambda>val. val = RedisMasterRole \<or> val = RedisSlaveRole)
                 (Split flags CHR '','')))\<rparr>" for n flags
    by (simp add: SetRole_def SetRole_loop_last)
  have link: "SetLinkStatus n status =
     n\<lparr>LinkState :=
         (if status = RedisLinkStateConnected \<or> status = RedisLinkStateDisconnected then status
          else [])\<rparr>" for n status
    by (auto simp add: SetLinkStatus_def Let_def)
  have none: "Role (SetRole n flags) = []"
    if "\<forall>val \<in> set (Split flags CHR '',''). val \<noteq> RedisMasterRole \<and> val \<noteq> RedisSlaveRole"
    using that by (simp add: SetRole_def SetRole_loop_unrecognized)
  have "SetRole (n\<lparr>Role := r\<rparr>) flags = SetRole n flags"
    by (simp add: SetRole_def)
  moreover have "SetLinkStatus (n\<lparr>LinkState := l\<rparr>) status = SetLinkStatus n status"
    by (simp add: SetLinkStatus_def)
  moreover have "status \<noteq> RedisLinkStateConnected \<and> status \<noteq> RedisLinkStateDisconnected \<longrightarrow>
      LinkState (SetLinkStatus n status) = []"
    by (simp add: link)
  moreover have "Role (SetRole n ''myself,slave'') = RedisSlaveRole"
    by (simp add: SetRole_def)
  moreover have "Role (SetRole (SetRole n ''myself,slave'') ''king'') = []"
    by (simp add: SetRole_def)
  ultimately show ?thesis
    using role [of n flags] link [of n status] none by blast
qed

theorem setters_reset_first_witness:
  "Split ''king'' CHR '','' = [''king''] \<and>
   Role (SetRole (NewDefaultNode\<lparr>Role := ''slave''\<rparr>) ''king'') = [] \<and>
   ''blabla'' \<noteq> RedisLinkStateConnected \<and> ''blabla'' \<noteq> RedisLinkStateDisconnected \<and>
   LinkState (SetLinkStatus (NewDefaultNode\<lparr>LinkState := ''connected''\<rparr>) ''blabla'') = [] \<and>
   Role (SetRole (NewDefaultNode\<lparr>Role := ''slave''\<rparr>) ''myself,master'') = ''master'' \<and>
   Role (SetRole NewDefaultNode ''slave,master,fail'') = ''master'' \<and>
   LinkState (SetLinkStatus (NewDefaultNode\<lparr>LinkState := ''connected''\<rparr>) ''disconnected'') =
     ''disconnected'' \<and>
   LinkState (SetLinkStatus NewDefaultNode ''connected'') = ''connected''"
  using setters_reset_first [where n = "NewDefaultNode\<lparr>Role := ''slave''\<rparr>"
      and flags = "''king''" and status = "''blabla''"]
    setters_reset_first [where n = "NewDefaultNode\<lparr>LinkState := ''connected''\<rparr>"
      and flags = "''king''" and status = "''blabla''"]
    setters_reset_first [where n = "NewDefaultNode\<lparr>Role := ''slave''\<rparr>"
      and flags = "''myself,master''" and status = "''connected''"]
    setters_reset_first [where n = "NewDefaultNode"
      and flags = "''slave,master,fail''" and status = "''connected''"]
    setters_reset_first [where n = "NewDefaultNode\<lparr>LinkState := ''connected''\<rparr>"
      and flags = "''king''" and status = "''disconnected''"]
  by (simp add: NewDefaultNode_def)

text \<open>
  C7. \<open>GetRole\<close> returns the role of the node when that is \<open>master\<close> or \<open>slave\<close>.
  Otherwise it returns \<open>slave\<close> when the node has a master referent, \<open>master\<close> when it
  has none and owns at least one slot, and \<open>none\<close> when it has neither.
\<close>

theorem GetRole_cases:
  "(Role n = RedisMasterRole \<or> Role n = RedisSlaveRole \<longrightarrow> GetRole n = Role n) \<and>
   (Role n \<noteq> RedisMasterRole \<and> Role n \<noteq> RedisSlaveRole \<and> MasterReferent n \<noteq> [] \<longrightarrow>
      GetRole n = RedisSlaveRole) \<and>
   (Role n \<noteq> RedisMasterRole \<and> Role n \<noteq> RedisSlaveRole \<and> MasterReferent n = [] \<and>
    length (Slots n) \<ge> 1 \<longrightarrow> GetRole n = RedisMasterRole) \<and>
   (Role n \<noteq> RedisMasterRole \<and> Role n \<noteq> RedisSlaveRole \<and> MasterReferent n = [] \<and>
    Slots n = [] \<longrightarrow> GetRole n = ''none'')"
  by (auto simp add: GetRole_def)

theorem GetRole_cases_witness:
  "GetRole (NewDefaultNode\<lparr>Role := ''slave'', Slots := [0, 1]\<rparr>) = ''slave'' \<and>
   GetRole (NewDefaultNode\<lparr>Role := ''master'', MasterReferent := ''abcd''\<rparr>) = ''master'' \<and>
   GetRole (NewDefaultNode\<lparr>MasterReferent := ''abcd'', Slots := [0, 1]\<rparr>) = ''slave'' \<and>
   GetRole (NewDefaultNode\<lparr>Slots := [7]\<rparr>) = ''master'' \<and>
   GetRole NewDefaultNode = ''none''"
  using GetRole_cases [of "NewDefaultNode\<lparr>Role := ''slave'', Slots := [0, 1]\<rparr>"]
    GetRole_cases [of "NewDefaultNode\<lparr>Role := ''master'', MasterReferent := ''abcd''\<rparr>"]
    GetRole_cases [of "NewDefaultNode\<lparr>MasterReferent := ''abcd'', Slots := [0, 1]\<rparr>"]
    GetRole_cases [of "NewDefaultNode\<lparr>Slots := [7]\<rparr>"]
    GetRole_cases [of NewDefaultNode]
  by (simp add: NewDefaultNode_def)

section \<open>Lookups in a collection\<close>

lemma GetNodesByFunc_loop_filter: "GetNodesByFunc_loop n f nodes = nodes @ filter f n"
  by (induction n arbitrary: nodes) simp_all

lemma FilterByFunc_loop_filter: "FilterByFunc_loop n fn newSlice = newSlice @ filter fn n"
  by (induction n arbitrary: newSlice) simp_all

lemma CountByFunc_filter: "CountByFunc n fn = length (filter fn n)"
  by (induction n) simp_all

lemma GetNodeByID_NotFound_iff:
  "GetNodeByID n id' = Inl nodeNotFoundedError \<longleftrightarrow> id' \<notin> ID ` set n"
  by (induction n) auto

text \<open>
  C5. \<open>GetNodesByFunc\<close> returns the nodes that satisfy the predicate, in their order,
  with the not-found error when there is none and with no error otherwise.
  \<open>GetNodeByID\<close> returns the not-found error when no node of the collection has the
  identifier, and only then; so it does on the empty collection. \<open>FilterByFunc\<close>
  returns the nodes that satisfy the predicate and has no error to return: on the empty
  collection, as whenever nothing matches, its result is the empty collection.
\<close>

theorem NotFound_iff_no_match:
  "GetNodesByFunc n f =
     (filter f n, if filter f n = [] then Some nodeNotFoundedError else None) \<and>
   (GetNodeByID n id' = Inl nodeNotFoundedError \<longleftrightarrow> id' \<notin> ID ` set n) \<and>
   GetNodeByID [] id' = Inl nodeNotFoundedError \<and>
   FilterByFunc n f = filter f n \<and>
   FilterByFunc [] f = []"
  by (simp add: GetNodesByFunc_def GetNodesByFunc_loop_filter GetNodeByID_NotFound_iff
        FilterByFunc_def FilterByFunc_loop_filter)

text \<open>
  C10. \<open>GetNodeByMasterID\<close> returns the first node of the collection whose master
  referent is the identifier, and the not-found error when there is none. The
  identifiers of the nodes themselves play no part: when no node has the identifier as
  its master referent the result is the not-found error, also when a node of the
  collection has that identifier.
\<close>

theorem GetNodeByMasterID_first_replica:
  "GetNodeByMasterID n id' =
     (case List.find (\<lambda>node. MasterReferent node = id') n of
        None \<Rightarrow> Inl nodeNotFoundedError
      | Some node \<Rightarrow> Inr node) \<and>
   (id' \<notin> MasterReferent ` set n \<longrightarrow> GetNodeByMasterID n id' = Inl nodeNotFoundedError)"
  by (induction n) auto

theorem GetNodeByMasterID_first_replica_witness:
  "''m1'' \<notin> MasterReferent ` set [NewNode ''m1'' ''1.2.3.1'' None] \<and>
   GetNodeByMasterID [NewNode ''m1'' ''1.2.3.1'' None] ''m1'' = Inl nodeNotFoundedError \<and>
   GetNodeByID [NewNode ''m1'' ''1.2.3.1'' None] ''m1'' = Inr (NewNode ''m1'' ''1.2.3.1'' None) \<and>
   GetNodeByMasterID
     [NewNode ''m1'' ''1.2.3.1'' None,
      (NewNode ''r1'' ''1.2.3.2'' None)\<lparr>MasterReferent := ''m1''\<rparr>,
      (NewNode ''r2'' ''1.2.3.3'' None)\<lparr>MasterReferent := ''m1''\<rparr>] ''m1'' =
     Inr ((NewNode ''r1'' ''1.2.3.2'' None)\<lparr>MasterReferent := ''m1''\<rparr>)"
  using GetNodeByMasterID_first_replica [of "[NewNode ''m1'' ''1.2.3.1'' None]" "''m1''"]
    GetNodeByMasterID_first_replica
      [of "[NewNode ''m1'' ''1.2.3.1'' None,
            (NewNode ''r1'' ''1.2.3.2'' None)\<lparr>MasterReferent := ''m1''\<rparr>,
            (NewNode ''r2'' ''1.2.3.3'' None)\<lparr>MasterReferent := ''m1''\<rparr>]" "''m1''"]
  by (simp add: NewNode_def NewDefaultNode_def)

section \<open>The node decoder\<close>

lemma SetRole_loop_address:
  "ID (SetRole_loop vals n) = ID n \<and> IP (SetRole_loop vals n) = IP n \<and>
   Port (SetRole_loop vals n) = Port n"
  by (induction vals arbitrary: n) simp_all

lemma SetRole_address:
  "ID (SetRole n flags) = ID n \<and> IP (SetRole n flags) = IP n \<and> Port (SetRole n flags) = Port n"
  by (simp add: SetRole_def SetRole_loop_address)

lemma SetFailureStatus_address:
  "ID (SetFailureStatus n flags) = ID n \<and> IP (SetFailureStatus n flags) = IP n \<and>
   Port (SetFailureStatus n flags) = Port n"
  by (simp add: SetFailureStatus_def SetFailureStatus_loop_filter)

lemma SetReferentMaster_address:
  "ID (SetReferentMaster n ref) = ID n \<and> IP (SetReferentMaster n ref) = IP n \<and>
   Port (SetReferentMaster n ref) = Port n"
  by (simp add: SetReferentMaster_def Let_def)

lemma SetLinkStatus_address:
  "ID (SetLinkStatus n status) = ID n \<and> IP (SetLinkStatus n status) = IP n \<and>
   Port (SetLinkStatus n status) = Port n"
  by (simp add: SetLinkStatus_def Let_def)

lemma decode_slots_address:
  "ID (decode_slots ext slots node) = ID node \<and> IP (decode_slots ext slots node) = IP node \<and>
   Port (decode_slots ext slots node) = Port node"
  by (induction slots arbitrary: node) (simp_all add: Let_def split: option.splits prod.splits)

lemma decode_node_log:
  "decode_node ext values log =
     (fst (decode_node ext values []), log @ snd (decode_node ext values []))"
  by (simp add: decode_node_def Let_def split: option.splits)

lemma decode_node_address_failure:
  assumes "SplitHostPort ext (Split (values ! 1) CHR ''@'' ! 0) = None"
  shows "ID (fst (decode_node ext values [])) = values ! 0 \<and>
    IP (fst (decode_node ext values [])) = [] \<and>
    Port (fst (decode_node ext values [])) = DefaultRedisPort \<and>
    snd (decode_node ext values []) = [Errorf (values ! 0) (values ! 1)]"
  using assms
  by (simp add: decode_node_def Let_def decode_slots_address SetLinkStatus_address
        SetReferentMaster_address SetFailureStatus_address SetRole_address NewDefaultNode_def
        split: option.splits del: One_nat_def)

lemma DecodeNodeInfos_loop_acc:
  "DecodeNodeInfos_loop ext lines nodes log =
     (nodes @ fst (DecodeNodeInfos_loop ext lines [] []),
      log @ snd (DecodeNodeInfos_loop ext lines [] []))"
proof (induction lines arbitrary: nodes log)
  case Nil
  show ?case by simp
next
  case (Cons line lines)
  let ?fields = "Split line CHR '' ''"
  show ?case
  proof (cases "length ?fields < 8")
    case True
    with Cons.IH [of nodes "log @ [Infof_V 7 line]"] Cons.IH [of "[]" "[Infof_V 7 line]"]
    show ?thesis
      by simp
  next
    case False
    obtain node l where node: "decode_node ext ?fields [] = (node, l)"
      by (cases "decode_node ext ?fields []")
    with decode_node_log [of ext ?fields log]
    have "decode_node ext ?fields log = (node, log @ l)"
      by simp
    with False node Cons.IH [of "nodes @ [node]" "log @ l"] Cons.IH [of "[node]" l]
    show ?thesis
      by (simp add: Let_def)
  qed
qed

lemma DecodeNodeInfos_loop_append:
  "DecodeNodeInfos_loop ext (xs @ ys) [] [] =
     (fst (DecodeNodeInfos_loop ext xs [] []) @ fst (DecodeNodeInfos_loop ext ys [] []),
      snd (DecodeNodeInfos_loop ext xs [] []) @ snd (DecodeNodeInfos_loop ext ys [] []))"
proof (induction xs)
  case Nil
  show ?case by simp
next
  case (Cons line xs)
  let ?fields = "Split line CHR '' ''"
  show ?case
  proof (cases "length ?fields < 8")
    case True
    with DecodeNodeInfos_loop_acc [of ext "xs @ ys" "[]" "[Infof_V 7 line]"]
      DecodeNodeInfos_loop_acc [of ext xs "[]" "[Infof_V 7 line]"] Cons.IH
    show ?thesis
      by simp
  next
    case False
    obtain node l where node: "decode_node ext ?fields [] = (node, l)"
      by (cases "decode_node ext ?fields []")
    with False DecodeNodeInfos_loop_acc [of ext "xs @ ys" "[node]" l]
      DecodeNodeInfos_loop_acc [of ext xs "[node]" l] Cons.IH
    show ?thesis
      by (simp add: Let_def)
  qed
qed

lemma DecodeNodeInfos_loop_line:
  assumes "\<not> length (Split line CHR '' '') < 8"
  shows "DecodeNodeInfos_loop ext (line # lines) [] [] =
     (fst (decode_node ext (Split line CHR '' '') []) # fst (DecodeNodeInfos_loop ext lines [] []),
      snd (decode_node ext (Split line CHR '' '') []) @ snd (DecodeNodeInfos_loop ext lines [] []))"
proof -
  obtain node l where node: "decode_node ext (Split line CHR '' '') [] = (node, l)"
    by (cases "decode_node ext (Split line CHR '' '') []")
  with assms DecodeNodeInfos_loop_acc [of ext lines "[node]" l] show ?thesis
    by (simp add: Let_def)
qed

text \<open>
  C9. Take any line of the input that has at least eight fields and whose address, cut
  at the first \<open>@\<close>, \<open>net.SplitHostPort\<close> rejects. The decoder still produces the node of
  that line, between the nodes of the lines before it and the nodes of the lines after
  it, which are decoded as they would be on their own. The node has the identifier of
  the line and the address that \<open>NewDefaultNode\<close> gave it: the IP is empty, and the port
  is the default port \<open>6379\<close>. The failure is in the log, as an error with the
  identifier and the address field of the line.
\<close>

theorem DecodeNodeInfos_address_failure:
  assumes "i < length (Split input newline)"
    and "values = Split (Split input newline ! i) CHR '' ''"
    and "\<not> length values < 8"
    and "SplitHostPort ext (Split (values ! 1) CHR ''@'' ! 0) = None"
  shows "fst (DecodeNodeInfos ext input) =
      fst (DecodeNodeInfos_loop ext (take i (Split input newline)) [] []) @
      [fst (decode_node ext values [])] @
      fst (DecodeNodeInfos_loop ext (drop (Suc i) (Split input newline)) [] []) \<and>
    ID (fst (decode_node ext values [])) = values ! 0 \<and>
    IP (fst (decode_node ext values [])) = [] \<and>
    Port (fst (decode_node ext values [])) = DefaultRedisPort \<and>
    Errorf (values ! 0) (values ! 1) \<in> set (snd (DecodeNodeInfos ext input))"
proof -
  let ?lines = "Split input newline"
  from assms(1) have "?lines = take i ?lines @ (?lines ! i # drop (Suc i) ?lines)"
    by (simp add: id_take_nth_drop)
  then have "DecodeNodeInfos ext input =
      DecodeNodeInfos_loop ext (take i ?lines @ (?lines ! i # drop (Suc i) ?lines)) [] []"
    by (simp add: DecodeNodeInfos_def)
  then have "DecodeNodeInfos ext input =
      (fst (DecodeNodeInfos_loop ext (take i ?lines) [] []) @
         fst (decode_node ext values []) # fst (DecodeNodeInfos_loop ext (drop (Suc i) ?lines) [] []),
       snd (DecodeNodeInfos_loop ext (take i ?lines) [] []) @
         snd (decode_node ext values []) @ snd (DecodeNodeInfos_loop ext (drop (Suc i) ?lines) [] []))"
    using assms(2,3)
    by (simp add: DecodeNodeInfos_loop_append DecodeNodeInfos_loop_line
          del: DecodeNodeInfos_loop.simps)
  with decode_node_address_failure [OF assms(4)] show ?thesis
    by simp
qed

theorem DecodeNodeInfos_address_failure_witness:
  "Split test_input newline ! 0 = ''a 1.2.3.4@16379 master - 0 0 1 connected'' \<and>
   length (Split ''a 1.2.3.4@16379 master - 0 0 1 connected'' CHR '' '') = 8 \<and>
   SplitHostPort test_externals ''1.2.3.4'' = None \<and>
   fst (DecodeNodeInfos test_externals test_input) =
     [NewDefaultNode\<lparr>ID := ''a'', Role := ''master'', ConfigEpoch := 1,
        LinkState := ''connected''\<rparr>,
      NewDefaultNode\<lparr>ID := ''b'', IP := ''1.2.3.5'', Port := ''6380'', Role := ''slave'',
        MasterReferent := ''a'', ConfigEpoch := 2, LinkState := ''connected''\<rparr>] \<and>
   IP (NewDefaultNode\<lparr>ID := ''a'', Role := ''master'', ConfigEpoch := 1,
        LinkState := ''connected''\<rparr>) = [] \<and>
   Port (NewDefaultNode\<lparr>ID := ''a'', Role := ''master'', ConfigEpoch := 1,
        LinkState := ''connected''\<rparr>) = ''6379'' \<and>
   Errorf ''a'' ''1.2.3.4@16379'' \<in> set (snd (DecodeNodeInfos test_externals test_input))"
proof -
  let ?line = "''a 1.2.3.4@16379 master - 0 0 1 connected''"
  let ?fields = "Split (Split test_input newline ! 0) CHR '' ''"
  have line: "Split test_input newline ! 0 = ?line"
    by (simp add: test_input_def)
  have fields: "?fields = [''a'', ''1.2.3.4@16379'', ''master'', ''-'', ''0'', ''0'', ''1'',
      ''connected'']"
    by (simp add: line)
  have lines: "0 < length (Split test_input newline)"
    by (simp add: Split_not_Nil)
  have enough: "\<not> length ?fields < 8"
    by (simp add: fields)
  have address: "SplitHostPort test_externals ''1.2.3.4'' = None"
    by (simp add: test_externals_def test_SplitHostPort_def)
  then have failure: "SplitHostPort test_externals (Split (?fields ! 1) CHR ''@'' ! 0) = None"
    by (simp add: fields)
  have rest: "fst (DecodeNodeInfos_loop test_externals (drop (Suc 0) (Split test_input newline))
        [] []) =
      [NewDefaultNode\<lparr>ID := ''b'', IP := ''1.2.3.5'', Port := ''6380'', Role := ''slave'',
        MasterReferent := ''a'', ConfigEpoch := 2, LinkState := ''connected''\<rparr>]"
    by (simp add: test_input_def decode_node_def test_externals_def test_SplitHostPort_def
        test_ParseInt_def SetRole_def SetFailureStatus_def SetReferentMaster_def
        SetLinkStatus_def NewDefaultNode_def Let_def)
  have node: "fst (decode_node test_externals ?fields []) =
      NewDefaultNode\<lparr>ID := ''a'', Role := ''master'', ConfigEpoch := 1,
        LinkState := ''connected''\<rparr>"
    by (simp add: fields decode_node_def test_externals_def test_SplitHostPort_def
        test_ParseInt_def SetRole_def SetFailureStatus_def SetReferentMaster_def
        SetLinkStatus_def NewDefaultNode_def Let_def)
  from DecodeNodeInfos_address_failure [OF lines refl enough failure] line fields address
    rest node
  show ?thesis
    by simp
qed

section \<open>Sending the configuration\<close>

lemma SetConfigIfNeed_master_sent:
  "set (snd (SetConfigIfNeed_master ParseRedisMemConf ConfigSet newConfig sent)) \<subseteq>
     set sent \<union> set newConfig"
  by (induction ParseRedisMemConf ConfigSet newConfig sent rule: SetConfigIfNeed_master.induct)
    (auto split: option.splits)

text \<open>
  C2 fails on what is sent. Every command that reaches a master carries an entry of
  \<open>newConfig\<close> as it was given: for the recognized key \<open>maxmemory\<close> and a master that
  accepts every command, the value sent is the value of the mapping when the
  normalizer accepts it, whatever the normalizer returned for it, and nothing is sent
  when the normalizer rejects it. With a normalizer that turns \<open>1gb\<close> into
  \<open>1073741824\<close>, the command sent for \<open>maxmemory\<close> still carries \<open>1gb\<close>.
\<close>

theorem SetConfigIfNeed_sends_raw_value:
  "set (snd (SetConfigIfNeed_master ParseRedisMemConf ConfigSet newConfig [])) \<subseteq> set newConfig \<and>
   SetConfigIfNeed ParseRedisMemConf [\<lambda>key value. None] [(''maxmemory'', value)] =
     (None, [case ParseRedisMemConf value of
               Inl err \<Rightarrow> []
             | Inr value' \<Rightarrow> [(''maxmemory'', value)]]) \<and>
   SetConfigIfNeed (\<lambda>value. Inr ''1073741824'') [\<lambda>key value. None] [(''maxmemory'', ''1gb'')] =
     (None, [[(''maxmemory'', ''1gb'')]])"
  using SetConfigIfNeed_master_sent [of ParseRedisMemConf ConfigSet newConfig "[]"]
  by (simp add: SetConfigIfNeed_def parseConfigMap_def split: sum.splits)

end
